theory Spec2Isabelle
  imports Complex_Main "HOL-Library.Char_ord" "HOL-Library.List_Lexorder"
begin

section \<open>The SpaceX launch dashboard: data model\<close>

text \<open>
  The program (\<^verbatim>\<open>spacex_dash_app.py\<close>) loads one CSV into the module-level data frame
  \<^verbatim>\<open>spacex_df\<close> and registers three callbacks that read it: \<^verbatim>\<open>update_pie_chart\<close>,
  \<^verbatim>\<open>update_scatter_chart\<close> and \<^verbatim>\<open>update_insight_charts\<close>. The last one also writes it
  (\<^verbatim>\<open>spacex_df['Payload Range'] = ...\<close>).

  A row of the CSV keeps the four columns the callbacks read. Payload masses are the
  numbers of the CSV, compared only with \<open>\<le>\<close> and \<open><\<close>: they are exact rationals here
  (a missing value, NaN, is outside the model). The outcome column \<^verbatim>\<open>class\<close> is an
  integer column; \<open>class\<close> is a keyword of Isabelle, hence the suffix.
\<close>

record launch =
  Launch_Site :: string
  Payload_Mass :: rat
  class_col :: int
  Booster_Version_Category :: string

text \<open>
  The data frame is the list of its rows, in file order, and the derived column
  \<^verbatim>\<open>'Payload Range'\<close>, which does not exist until \<^verbatim>\<open>update_insight_charts\<close> has run once.
  In the column, \<open>None\<close> is the missing label (NaN) that \<^verbatim>\<open>pd.cut\<close> gives outside the bins.
\<close>

record dataframe =
  records :: "launch list"
  Payload_Range :: "string option list option"

text \<open>\<^verbatim>\<open>pd.read_csv\<close>: the frame as loaded, without the derived column.\<close>

definition read_csv :: "launch list \<Rightarrow> dataframe" where
  "read_csv rows = \<lparr>records = rows, Payload_Range = None\<rparr>"

text \<open>
  The value of the dropdown: a string, or \<open>None\<close> when the user has cleared it.
  The value of the range slider: a list of numbers, unpacked by \<^verbatim>\<open>low, high = payload_range\<close>,
  which raises \<^verbatim>\<open>ValueError\<close> unless there are exactly two.
\<close>

type_synonym selection = "string option"

datatype error = ValueError

text \<open>\<^verbatim>\<open>f"{selected_site}"\<close>\<close>

definition format_site :: "selection \<Rightarrow> string" where
  "format_site selected_site = (case selected_site of None \<Rightarrow> ''None'' | Some s \<Rightarrow> s)"

section \<open>The library calls the callbacks make\<close>

text \<open>Order of first appearance, as \<^verbatim>\<open>Series.unique()\<close> and the labels of a pie trace have it.\<close>

definition unique :: "'a list \<Rightarrow> 'a list" where
  "unique xs = rev (remdups (rev xs))"

text \<open>
  \<^verbatim>\<open>px.pie(df, names=..., values=...)\<close>: one sector per distinct label; a pie trace sums the
  values of the entries that share a label, and counts the entries when no values are given.
  A figure is its title and its data.
\<close>

datatype pie_label = SiteName string | ClassValue int

type_synonym pie_chart = "string \<times> (pie_label \<times> int) list"

definition px_pie_values :: "('r \<Rightarrow> pie_label) \<Rightarrow> ('r \<Rightarrow> int) \<Rightarrow> 'r list \<Rightarrow> (pie_label \<times> int) list" where
  "px_pie_values names vals df =
     map (\<lambda>l. (l, sum_list (map vals (filter (\<lambda>r. names r = l) df)))) (unique (map names df))"

definition px_pie_names :: "('r \<Rightarrow> pie_label) \<Rightarrow> 'r list \<Rightarrow> (pie_label \<times> int) list" where
  "px_pie_names names df =
     map (\<lambda>l. (l, int (length (filter (\<lambda>r. names r = l) df)))) (unique (map names df))"

text \<open>
  \<^verbatim>\<open>px.scatter(df, x='Payload Mass (kg)', y='class', color='Booster Version Category')\<close>:
  one point per row, carrying the three columns as they are.
\<close>

type_synonym scatter_chart = "string \<times> (rat \<times> int \<times> string) list"

definition point :: "launch \<Rightarrow> rat \<times> int \<times> string" where
  "point r = (Payload_Mass r, class_col r, Booster_Version_Category r)"

definition px_scatter :: "launch list \<Rightarrow> (rat \<times> int \<times> string) list" where
  "px_scatter df = map point df"

text \<open>\<^verbatim>\<open>px.bar(table, x=..., y=...)\<close>: one bar per row of the aggregated table.\<close>

type_synonym 'v bar_chart = "string \<times> (string \<times> 'v) list"

text \<open>
  \<^verbatim>\<open>df.groupby(key)\<close> on an ordinary column: the groups of the keys that occur, sorted by key,
  each with its rows in frame order.
\<close>

definition groupby :: "('r \<Rightarrow> 'k::linorder) \<Rightarrow> 'r list \<Rightarrow> ('k \<times> 'r list) list" where
  "groupby key df = map (\<lambda>k. (k, filter (\<lambda>r. key r = k) df)) (sort (remdups (map key df)))"

text \<open>
  \<^verbatim>\<open>df.groupby('Payload Range')\<close> on the categorical column: one group per category, in the
  order of the categories, empty ones included; rows with a missing label are in no group.
\<close>

definition groupby_categorical :: "string list \<Rightarrow> (launch \<times> string option) list \<Rightarrow> (string \<times> launch list) list" where
  "groupby_categorical categories df =
     map (\<lambda>l. (l, map fst (filter (\<lambda>(r, b). b = Some l) df))) categories"

text \<open>
  \<^verbatim>\<open>.count()\<close> and \<^verbatim>\<open>.mean()\<close> of a group's \<^verbatim>\<open>class\<close> values. The mean of no values is
  NaN, here \<open>None\<close>; the mean of some values is the integer sum over the count, kept here as
  the exact quotient (pandas returns the nearest float).
\<close>

definition count :: "int list \<Rightarrow> nat" where
  "count cs = length cs"

definition mean :: "int list \<Rightarrow> rat option" where
  "mean cs = (if cs = [] then None else Some (of_int (sum_list cs) / of_nat (length cs)))"

text \<open>
  \<^verbatim>\<open>pd.cut(x, bins=bins, labels=labels)\<close> with its defaults \<^verbatim>\<open>right=True\<close> and
  \<^verbatim>\<open>include_lowest=False\<close>: the position of \<open>x\<close> among the increasing bin edges is
  \<^verbatim>\<open>bins.searchsorted(x, side='left')\<close>, the number of edges strictly below \<open>x\<close>; position 0
  (\<open>x\<close> at or below the first edge) and position \<open>len(bins)\<close> (\<open>x\<close> above the last edge) are
  missing, any other position \<open>i\<close> takes \<open>labels[i - 1]\<close>.
\<close>

definition searchsorted_left :: "rat list \<Rightarrow> rat \<Rightarrow> nat" where
  "searchsorted_left edges x = length (takeWhile (\<lambda>b. b < x) edges)"

definition cut_one :: "rat list \<Rightarrow> string list \<Rightarrow> rat \<Rightarrow> string option" where
  "cut_one edges names x =
     (let ids = searchsorted_left edges x
      in if ids = 0 \<or> ids = length edges then None else Some (names ! (ids - 1)))"

definition pd_cut :: "rat list \<Rightarrow> rat list \<Rightarrow> string list \<Rightarrow> string option list" where
  "pd_cut xs edges names = map (cut_one edges names) xs"

section \<open>The callbacks\<close>

subsection \<open>\<^verbatim>\<open>update_pie_chart\<close>\<close>

definition site_is :: "selection \<Rightarrow> launch \<Rightarrow> bool" where
  "site_is selected_site r = (Some (Launch_Site r) = selected_site)"

definition update_pie_chart :: "dataframe \<Rightarrow> selection \<Rightarrow> pie_chart" where
  "update_pie_chart spacex_df selected_site =
     (if selected_site = Some ''ALL'' then
        (''Total Successful Launches by Site'',
         px_pie_values (\<lambda>r. SiteName (Launch_Site r)) class_col (records spacex_df))
      else
        (let filtered_df = filter (site_is selected_site) (records spacex_df)
         in (''Success vs Failure for site '' @ format_site selected_site,
             px_pie_names (\<lambda>r. ClassValue (class_col r)) filtered_df)))"

subsection \<open>\<^verbatim>\<open>update_scatter_chart\<close>\<close>

definition payload_mask :: "rat \<Rightarrow> rat \<Rightarrow> launch \<Rightarrow> bool" where
  "payload_mask low high r = (Payload_Mass r \<ge> low \<and> Payload_Mass r \<le> high)"

text \<open>The local \<^verbatim>\<open>filtered_df\<close> of the callback, as it stands when the figure is built.\<close>

definition scatter_filtered_df :: "dataframe \<Rightarrow> selection \<Rightarrow> rat \<Rightarrow> rat \<Rightarrow> launch list" where
  "scatter_filtered_df spacex_df selected_site low high =
     (let filtered_df = filter (payload_mask low high) (records spacex_df)
      in if selected_site \<noteq> Some ''ALL''
         then filter (site_is selected_site) filtered_df
         else filtered_df)"

definition update_scatter_chart :: "dataframe \<Rightarrow> selection \<Rightarrow> rat list \<Rightarrow> error + scatter_chart" where
  "update_scatter_chart spacex_df selected_site payload_range =
     (case payload_range of
        [low, high] \<Rightarrow>
          Inr (''Payload vs Launch Outcome'',
               px_scatter (scatter_filtered_df spacex_df selected_site low high))
      | _ \<Rightarrow> Inl ValueError)"

subsection \<open>\<^verbatim>\<open>update_insight_charts\<close>\<close>

definition bins :: "rat list" where
  "bins = [0, 2500, 5000, 7500, 10000]"

definition labels :: "string list" where
  "labels = [''0-2500'', ''2500-5000'', ''5000-7500'', ''7500-10000'']"

definition site_success :: "launch list \<Rightarrow> (string \<times> nat) list" where
  "site_success df =
     map (\<lambda>(k, g). (k, count (map class_col g)))
       (groupby Launch_Site (filter (\<lambda>r. class_col r = 1) df))"

definition site_rate :: "launch list \<Rightarrow> (string \<times> rat option) list" where
  "site_rate df = map (\<lambda>(k, g). (k, mean (map class_col g))) (groupby Launch_Site df)"

definition payload_rate :: "launch list \<Rightarrow> string option list \<Rightarrow> (string \<times> rat option) list" where
  "payload_rate df col =
     map (\<lambda>(k, g). (k, mean (map class_col g))) (groupby_categorical labels (zip df col))"

definition booster_rate :: "launch list \<Rightarrow> (string \<times> rat option) list" where
  "booster_rate df =
     map (\<lambda>(k, g). (k, mean (map class_col g))) (groupby Booster_Version_Category df)"

type_synonym insight_charts =
  "nat bar_chart \<times> rat option bar_chart \<times> rat option bar_chart \<times> rat option bar_chart"

text \<open>
  The callback returns its four figures and leaves \<^verbatim>\<open>spacex_df\<close> with the column
  \<^verbatim>\<open>'Payload Range'\<close> assigned; the model returns the frame as well. The grouping by payload
  range reads the column just assigned.
\<close>

definition update_insight_charts :: "dataframe \<Rightarrow> selection \<Rightarrow> dataframe \<times> insight_charts" where
  "update_insight_charts spacex_df selected_site =
     (let fig_site_success = (''Successful Launches by Site'', site_success (records spacex_df));
          fig_site_rate = (''Launch Success Rate by Site'', site_rate (records spacex_df));
          col = pd_cut (map Payload_Mass (records spacex_df)) bins labels;
          spacex_df = spacex_df\<lparr>Payload_Range := Some col\<rparr>;
          fig_payload_rate =
            (''Launch Success Rate by Payload Range'', payload_rate (records spacex_df) col);
          fig_booster_rate =
            (''Launch Success Rate by Booster Version'', booster_rate (records spacex_df))
      in (spacex_df, (fig_site_success, fig_site_rate, fig_payload_rate, fig_booster_rate)))"

subsection \<open>The running application\<close>

text \<open>
  Dash calls a callback whenever one of its inputs changes; the callbacks share the
  module-level frame. An event is one such call, and a run is any sequence of them.
\<close>

datatype event =
    PieEvent selection
  | ScatterEvent selection "rat list"
  | InsightEvent selection

datatype figures =
    PieOut pie_chart
  | ScatterOut "error + scatter_chart"
  | InsightOut insight_charts

fun fire :: "dataframe \<Rightarrow> event \<Rightarrow> dataframe \<times> figures" where
  "fire spacex_df (PieEvent s) = (spacex_df, PieOut (update_pie_chart spacex_df s))"
| "fire spacex_df (ScatterEvent s pr) = (spacex_df, ScatterOut (update_scatter_chart spacex_df s pr))"
| "fire spacex_df (InsightEvent s) =
     (case update_insight_charts spacex_df s of (df', figs) \<Rightarrow> (df', InsightOut figs))"

fun run :: "dataframe \<Rightarrow> event list \<Rightarrow> dataframe" where
  "run spacex_df [] = spacex_df"
| "run spacex_df (e # es) = run (fst (fire spacex_df e)) es"

subsection \<open>The scenario of the specification\<close>

definition scenario :: dataframe where
  "scenario = read_csv
     [\<lparr>Launch_Site = ''A'', Payload_Mass = 1000, class_col = 1, Booster_Version_Category = ''FT''\<rparr>,
      \<lparr>Launch_Site = ''A'', Payload_Mass = 6000, class_col = 0, Booster_Version_Category = ''FT''\<rparr>,
      \<lparr>Launch_Site = ''B'', Payload_Mass = 3000, class_col = 1, Booster_Version_Category = ''B4''\<rparr>]"


text \<open>A frame of one launch that carried no payload, as the first row of the launch records does.\<close>

definition zero_payload_frame :: dataframe where
  "zero_payload_frame = read_csv
     [\<lparr>Launch_Site = ''CCAFS LC-40'', Payload_Mass = 0, class_col = 0,
       Booster_Version_Category = ''v1.0''\<rparr>]"

section \<open>Auxiliary facts\<close>


lemma unique_set [simp]: "set (unique xs) = set xs"
  by (simp add: unique_def)

lemma unique_distinct [simp]: "distinct (unique xs)"
  by (simp add: unique_def)

lemma remdups_map_inj: "inj f \<Longrightarrow> remdups (map f xs) = map f (remdups xs)"
  by (induction xs) (auto simp: inj_def)

lemma unique_map_inj: "inj f \<Longrightarrow> unique (map f xs) = map f (unique xs)"
  by (simp add: unique_def rev_map remdups_map_inj)

lemma sum_list_delta:
  "distinct ks \<Longrightarrow> k \<in> set ks \<Longrightarrow> sum_list (map (\<lambda>l. if k = l then (c::int) else 0) ks) = c"
  by (simp add: sum_list_distinct_conv_sum_set)

lemma sum_list_partition:
  fixes v :: "'r \<Rightarrow> int"
  assumes "distinct ks" and "f ` set xs \<subseteq> set ks"
  shows "sum_list (map (\<lambda>l. sum_list (map v (filter (\<lambda>r. f r = l) xs))) ks) = sum_list (map v xs)"
  using assms(2)
proof (induction xs)
  case Nil
  then show ?case by simp
next
  case (Cons x xs)
  have "sum_list (map (\<lambda>l. sum_list (map v (filter (\<lambda>r. f r = l) (x # xs)))) ks)
      = sum_list (map (\<lambda>l. (if f x = l then v x else 0) + sum_list (map v (filter (\<lambda>r. f r = l) xs))) ks)"
    by (rule arg_cong [where f = sum_list]) (rule map_cong, auto)
  also have "\<dots> = sum_list (map (\<lambda>l. if f x = l then v x else 0) ks)
                  + sum_list (map (\<lambda>l. sum_list (map v (filter (\<lambda>r. f r = l) xs))) ks)"
    by (simp add: sum_list_addf)
  also have "\<dots> = v x + sum_list (map v xs)"
    using Cons assms(1) by (simp add: sum_list_delta)
  finally show ?case by simp
qed

lemma length_filter_partition:
  assumes "distinct ks" and "f ` set xs \<subseteq> set ks"
  shows "sum_list (map (\<lambda>l. int (length (filter (\<lambda>r. f r = l) xs))) ks) = int (length xs)"
  using sum_list_partition [OF assms, of "\<lambda>_. 1"]
  by (simp add: sum_list_triv)

lemma binary_sum_is_count:
  "\<forall>r\<in>set xs. class_col r = 0 \<or> class_col r = 1 \<Longrightarrow>
   sum_list (map class_col xs) = int (length (filter (\<lambda>r. class_col r = 1) xs))"
  by (induction xs) auto

section \<open>The scatter query\<close>


text \<open>The two successive filters of the callback are one filter by the conjunction.\<close>

lemma scatter_filtered_df_eq:
  "scatter_filtered_df df sel low high =
     filter (\<lambda>r. low \<le> Payload_Mass r \<and> Payload_Mass r \<le> high \<and>
                 (sel \<noteq> Some ''ALL'' \<longrightarrow> Some (Launch_Site r) = sel)) (records df)"
  by (auto simp: scatter_filtered_df_def payload_mask_def site_is_def Let_def intro: filter_cong)

text \<open>
  Claim C1. For every frame, selection and range \<open>[low, high]\<close>, the rows the scatter
  callback plots are exactly the rows of the data set, in order and with their multiplicity,
  whose payload mass satisfies \<open>low \<le> payload \<le> high\<close> and, unless the selection is the
  sentinel \<open>'ALL'\<close>, whose launch site is the selected one; the figure holds the
  (payload, outcome, booster category) triple of each such row, as it is in the data set.
\<close>

theorem scatter_returns_matching_rows:
  "scatter_filtered_df df sel low high =
     filter (\<lambda>r. low \<le> Payload_Mass r \<and> Payload_Mass r \<le> high \<and>
                 (sel \<noteq> Some ''ALL'' \<longrightarrow> Some (Launch_Site r) = sel)) (records df)
   \<and> update_scatter_chart df sel [low, high] =
       Inr (''Payload vs Launch Outcome'',
            map (\<lambda>r. (Payload_Mass r, class_col r, Booster_Version_Category r))
              (scatter_filtered_df df sel low high))"
  by (simp add: scatter_filtered_df_eq update_scatter_chart_def px_scatter_def point_def)

text \<open>
  The scenarios of the specification: selection \<open>B\<close> with the full range, and every site
  with the range \<open>[2000, 5000]\<close>, both plot the one row of site \<open>B\<close>.
\<close>

theorem scatter_returns_matching_rows_witness:
  "update_scatter_chart scenario (Some ''B'') [0, 10000] =
     Inr (''Payload vs Launch Outcome'', [(3000, 1, ''B4'')])
   \<and> update_scatter_chart scenario (Some ''ALL'') [2000, 5000] =
     Inr (''Payload vs Launch Outcome'', [(3000, 1, ''B4'')])"
  using scatter_returns_matching_rows [of scenario "Some ''B''" 0 10000]
        scatter_returns_matching_rows [of scenario "Some ''ALL''" 2000 5000]
  by (simp add: scenario_def read_csv_def)

text \<open>
  Claim C4. For every range with \<open>low > high\<close> and every selection, the scatter callback
  returns a figure (it does not raise) and the figure has no rows.
\<close>

theorem scatter_empty_when_low_above_high:
  "high < low \<Longrightarrow>
     scatter_filtered_df df sel low high = [] \<and>
     update_scatter_chart df sel [low, high] = Inr (''Payload vs Launch Outcome'', [])"
  by (auto simp: scatter_filtered_df_eq update_scatter_chart_def px_scatter_def filter_empty_conv)

theorem scatter_empty_when_low_above_high_witness:
  "(2000::rat) < 5000 \<and>
   update_scatter_chart scenario (Some ''ALL'') [5000, 2000] = Inr (''Payload vs Launch Outcome'', [])"
proof -
  have h: "(2000::rat) < 5000" by simp
  show ?thesis
    using h scatter_empty_when_low_above_high [OF h, of scenario "Some ''ALL''"] by simp
qed

text \<open>
  Claim C9. For a selection other than \<open>'ALL'\<close>, the callback filters by payload range and
  then by site; filtering by site and then by payload range gives the same rows.
\<close>

theorem scatter_filters_commute:
  "sel \<noteq> Some ''ALL'' \<Longrightarrow>
     scatter_filtered_df df sel low high =
       filter (site_is sel) (filter (payload_mask low high) (records df)) \<and>
     filter (site_is sel) (filter (payload_mask low high) (records df)) =
       filter (payload_mask low high) (filter (site_is sel) (records df))"
  by (auto simp: scatter_filtered_df_def intro: filter_cong)

theorem scatter_filters_commute_witness:
  "Some ''B'' \<noteq> Some ''ALL'' \<and>
   scatter_filtered_df scenario (Some ''B'') 0 10000 =
     filter (payload_mask 0 10000) (filter (site_is (Some ''B'')) (records scenario)) \<and>
   scatter_filtered_df scenario (Some ''B'') 0 10000 =
     [\<lparr>Launch_Site = ''B'', Payload_Mass = 3000, class_col = 1, Booster_Version_Category = ''B4''\<rparr>]"
proof -
  have h: "Some ''B'' \<noteq> Some ''ALL''" by simp
  show ?thesis
    using h scatter_filters_commute [OF h, of scenario 0 10000]
    by (simp add: scenario_def read_csv_def payload_mask_def site_is_def)
qed

section \<open>Payload buckets\<close>


text \<open>
  What the binning computes: the column the insight callback writes holds, for each row, the
  bucket of its payload mass, and with the defaults of \<^verbatim>\<open>pd.cut\<close> every bucket is
  left-exclusive and right-inclusive, the first one too.
\<close>

lemma payload_bucket_intervals:
  "Payload_Range (fst (update_insight_charts df sel)) =
     Some (map (\<lambda>r. cut_one bins labels (Payload_Mass r)) (records df))
   \<and> cut_one bins labels x =
     (if 0 < x \<and> x \<le> 2500 then Some ''0-2500''
      else if 2500 < x \<and> x \<le> 5000 then Some ''2500-5000''
      else if 5000 < x \<and> x \<le> 7500 then Some ''5000-7500''
      else if 7500 < x \<and> x \<le> 10000 then Some ''7500-10000''
      else None)"
  by (simp add: update_insight_charts_def Let_def pd_cut_def cut_one_def searchsorted_left_def
      bins_def labels_def)

text \<open>
  Claim C2. The claim asks that every payload mass in \<open>[0, 10000]\<close> gets exactly one of the
  four labels, the first bucket including 0. The code bins from the edge 0 and names the first
  bucket \<open>'0-2500'\<close>, but calls \<^verbatim>\<open>pd.cut\<close> without \<^verbatim>\<open>include_lowest=True\<close>: a launch with
  payload mass 0 gets the missing label, so the payload chart has no launch in any bucket,
  while the scatter query over \<open>[0, 10000]\<close> and the per-site and per-booster rates of the same
  callback all keep that launch.
\<close>

theorem payload_zero_has_no_bucket:
  "cut_one bins labels 0 = None \<and>
   Payload_Range (fst (update_insight_charts zero_payload_frame (Some ''ALL''))) = Some [None] \<and>
   snd (snd (update_insight_charts zero_payload_frame (Some ''ALL''))) =
     ((''Launch Success Rate by Site'', [(''CCAFS LC-40'', Some 0)]),
      (''Launch Success Rate by Payload Range'',
         [(''0-2500'', None), (''2500-5000'', None), (''5000-7500'', None),
          (''7500-10000'', None)]),
      (''Launch Success Rate by Booster Version'', [(''v1.0'', Some 0)])) \<and>
   update_scatter_chart zero_payload_frame (Some ''ALL'') [0, 10000] =
     Inr (''Payload vs Launch Outcome'', [(0, 0, ''v1.0'')])"
proof -
  have "cut_one bins labels 0 = None"
    by (simp add: cut_one_def searchsorted_left_def bins_def labels_def)
  moreover have
    "Payload_Range (fst (update_insight_charts zero_payload_frame (Some ''ALL''))) = Some [None]"
    by (simp add: update_insight_charts_def Let_def pd_cut_def cut_one_def searchsorted_left_def
        bins_def labels_def read_csv_def zero_payload_frame_def)
  moreover have "snd (snd (update_insight_charts zero_payload_frame (Some ''ALL''))) =
     ((''Launch Success Rate by Site'', [(''CCAFS LC-40'', Some 0)]),
      (''Launch Success Rate by Payload Range'',
         [(''0-2500'', None), (''2500-5000'', None), (''5000-7500'', None),
          (''7500-10000'', None)]),
      (''Launch Success Rate by Booster Version'', [(''v1.0'', Some 0)]))"
    by code_simp
  moreover have "update_scatter_chart zero_payload_frame (Some ''ALL'') [0, 10000] =
     Inr (''Payload vs Launch Outcome'', [(0, 0, ''v1.0'')])"
    by (simp add: update_scatter_chart_def scatter_filtered_df_def payload_mask_def px_scatter_def
        point_def read_csv_def zero_payload_frame_def)
  ultimately show ?thesis by (intro conjI)
qed


section \<open>The outcome-distribution query\<close>

lemma site_is_fun: "site_is sel = (\<lambda>r. Some (Launch_Site r) = sel)"
  by (rule ext) (simp add: site_is_def)

lemma pie_all_sectors:
  assumes "\<forall>r\<in>set (records df). class_col r = 0 \<or> class_col r = 1"
  shows "snd (update_pie_chart df (Some ''ALL'')) =
     map (\<lambda>s. (SiteName s,
            int (length (filter (\<lambda>r. Launch_Site r = s \<and> class_col r = 1) (records df)))))
       (unique (map Launch_Site (records df)))"
proof -
  have inj: "inj SiteName" by (simp add: inj_def)
  have "sum_list (map class_col (filter (\<lambda>r. Launch_Site r = s) (records df))) =
        int (length (filter (\<lambda>r. Launch_Site r = s \<and> class_col r = 1) (records df)))" for s
    using assms binary_sum_is_count [of "filter (\<lambda>r. Launch_Site r = s) (records df)"]
    by (simp add: conj_commute)
  then show ?thesis
    using unique_map_inj [OF inj, of "map Launch_Site (records df)"]
    by (simp add: update_pie_chart_def px_pie_values_def o_def)
qed

lemma pie_all_total:
  assumes "\<forall>r\<in>set (records df). class_col r = 0 \<or> class_col r = 1"
  shows "sum_list (map snd (snd (update_pie_chart df (Some ''ALL'')))) =
         int (length (filter (\<lambda>r. class_col r = 1) (records df)))"
proof -
  have "sum_list (map snd (snd (update_pie_chart df (Some ''ALL'')))) =
        sum_list (map class_col (records df))"
    using sum_list_partition [of "unique (map (\<lambda>r. SiteName (Launch_Site r)) (records df))"
        "\<lambda>r. SiteName (Launch_Site r)" "records df" class_col]
    by (simp add: update_pie_chart_def px_pie_values_def o_def)
  then show ?thesis using assms by (simp add: binary_sum_is_count)
qed

lemma pie_site_sectors:
  assumes "sel \<noteq> Some ''ALL''"
  shows "snd (update_pie_chart df sel) =
     map (\<lambda>c. (ClassValue c,
            int (length (filter (\<lambda>r. Some (Launch_Site r) = sel \<and> class_col r = c) (records df)))))
       (unique (map class_col (filter (\<lambda>r. Some (Launch_Site r) = sel) (records df))))"
proof -
  have inj: "inj ClassValue" by (simp add: inj_def)
  show ?thesis
    using assms
      unique_map_inj [OF inj, of "map class_col (filter (\<lambda>r. Some (Launch_Site r) = sel) (records df))"]
    by (simp add: update_pie_chart_def px_pie_names_def o_def site_is_fun conj_commute)
qed

lemma pie_site_total:
  assumes "sel \<noteq> Some ''ALL''"
  shows "sum_list (map snd (snd (update_pie_chart df sel))) =
         int (length (filter (\<lambda>r. Some (Launch_Site r) = sel) (records df)))"
  using assms
    length_filter_partition [of "unique (map (\<lambda>r. ClassValue (class_col r)) (filter (site_is sel) (records df)))"
        "\<lambda>r. ClassValue (class_col r)" "filter (site_is sel) (records df)"]
  by (simp add: update_pie_chart_def px_pie_names_def o_def site_is_fun)

text \<open>
  Claim C3. With every outcome 0 or 1: for the selection \<open>'ALL'\<close> the pie has one sector per
  launch site, whose value is the number of successful launches (rows with outcome 1) of that
  site, and the values sum to the number of successful launches; for any other selection the
  pie has one sector per outcome class occurring at the selected site, whose value is the number
  of that site's rows with that outcome, and the values sum to the number of rows of the site.
\<close>

theorem pie_slices_are_counts:
  assumes "\<forall>r\<in>set (records df). class_col r = 0 \<or> class_col r = 1"
  shows "(snd (update_pie_chart df (Some ''ALL'')) =
            map (\<lambda>s. (SiteName s,
                   int (length (filter (\<lambda>r. Launch_Site r = s \<and> class_col r = 1) (records df)))))
              (unique (map Launch_Site (records df))) \<and>
          sum_list (map snd (snd (update_pie_chart df (Some ''ALL'')))) =
            int (length (filter (\<lambda>r. class_col r = 1) (records df)))) \<and>
         (sel \<noteq> Some ''ALL'' \<longrightarrow>
          snd (update_pie_chart df sel) =
            map (\<lambda>c. (ClassValue c,
                   int (length (filter (\<lambda>r. Some (Launch_Site r) = sel \<and> class_col r = c) (records df)))))
              (unique (map class_col (filter (\<lambda>r. Some (Launch_Site r) = sel) (records df)))) \<and>
          sum_list (map snd (snd (update_pie_chart df sel))) =
            int (length (filter (\<lambda>r. Some (Launch_Site r) = sel) (records df))))"
  using pie_all_sectors [OF assms] pie_all_total [OF assms]
    pie_site_sectors [of sel df] pie_site_total [of sel df]
  by simp

text \<open>
  On the scenario of the specification: one success each for sites \<open>A\<close> and \<open>B\<close>; site
  \<open>B\<close> is all success; site \<open>A\<close> has one success and one failure.
\<close>

theorem pie_slices_are_counts_witness:
  "update_pie_chart scenario (Some ''ALL'') =
     (''Total Successful Launches by Site'', [(SiteName ''A'', 1), (SiteName ''B'', 1)]) \<and>
   update_pie_chart scenario (Some ''B'') =
     (''Success vs Failure for site B'', [(ClassValue 1, 1)]) \<and>
   update_pie_chart scenario (Some ''A'') =
     (''Success vs Failure for site A'', [(ClassValue 1, 1), (ClassValue 0, 1)])"
proof -
  have h: "\<forall>r\<in>set (records scenario). class_col r = 0 \<or> class_col r = 1"
    by (simp add: scenario_def read_csv_def)
  have t: "fst (update_pie_chart scenario (Some ''ALL'')) = ''Total Successful Launches by Site''"
    "fst (update_pie_chart scenario (Some ''B'')) = ''Success vs Failure for site B''"
    "fst (update_pie_chart scenario (Some ''A'')) = ''Success vs Failure for site A''"
    by (simp_all add: update_pie_chart_def format_site_def)
  have "snd (update_pie_chart scenario (Some ''ALL'')) = [(SiteName ''A'', 1), (SiteName ''B'', 1)]"
    using pie_slices_are_counts [OF h, of "Some ''ALL''"]
    by (simp add: scenario_def read_csv_def unique_def)
  moreover have "snd (update_pie_chart scenario (Some ''B'')) = [(ClassValue 1, 1)]"
    using pie_slices_are_counts [OF h, of "Some ''B''"]
    by (simp add: scenario_def read_csv_def unique_def)
  moreover have "snd (update_pie_chart scenario (Some ''A'')) = [(ClassValue 1, 1), (ClassValue 0, 1)]"
    using pie_slices_are_counts [OF h, of "Some ''A''"]
    by (simp add: scenario_def read_csv_def unique_def)
  ultimately show ?thesis using t by (simp add: prod_eq_iff)
qed

section \<open>The site insight aggregates\<close>

lemma site_success_eq:
  "site_success rows =
     map (\<lambda>s. (s, length (filter (\<lambda>r. Launch_Site r = s \<and> class_col r = 1) rows)))
       (sorted_list_of_set (Launch_Site ` {r \<in> set rows. class_col r = 1}))"
proof -
  have "sort (remdups (map Launch_Site (filter (\<lambda>r. class_col r = 1) rows))) =
        sorted_list_of_set (Launch_Site ` {r \<in> set rows. class_col r = 1})"
    by (simp add: sorted_list_of_set_sort_remdups [symmetric])
  then show ?thesis
    by (simp add: site_success_def groupby_def count_def o_def conj_commute)
qed

lemma mean_nonempty:
  "cs \<noteq> [] \<Longrightarrow> mean cs = Some (of_int (sum_list cs) / of_nat (length cs))"
  by (simp add: mean_def)

lemma grouped_mean_eq:
  fixes key :: "launch \<Rightarrow> string"
  shows "map (\<lambda>(k, g). (k, mean (map class_col g))) (groupby key rows) =
     map (\<lambda>s. (s, Some (of_int (sum_list (map class_col (filter (\<lambda>r. key r = s) rows)))
                        / of_nat (length (filter (\<lambda>r. key r = s) rows)))))
       (sorted_list_of_set (key ` set rows))"
proof -
  have keys: "sort (remdups (map key rows)) = sorted_list_of_set (key ` set rows)"
    by (simp add: sorted_list_of_set_sort_remdups [symmetric])
  have "mean (map class_col (filter (\<lambda>r. key r = s) rows)) =
        Some (of_int (sum_list (map class_col (filter (\<lambda>r. key r = s) rows)))
              / of_nat (length (filter (\<lambda>r. key r = s) rows)))"
    if "s \<in> key ` set rows" for s
  proof -
    from that have "filter (\<lambda>r. key r = s) rows \<noteq> []"
      by (auto simp: filter_empty_conv)
    then show ?thesis by (simp add: mean_nonempty)
  qed
  then show ?thesis
    by (simp add: groupby_def keys o_def)
qed

text \<open>
  Claim C6. The figures of the insight callback do not depend on the selection. The first one
  is the table, sorted by site, of the number of rows with outcome 1 of each site that has such
  a row; the second one is the table, sorted by site, of the mean outcome of each site's rows;
  both range over all rows of the data set.
\<close>

theorem site_insights_independent_of_selection:
  "snd (update_insight_charts df s1) = snd (update_insight_charts df s2) \<and>
   fst (snd (update_insight_charts df s1)) =
     (''Successful Launches by Site'',
      map (\<lambda>s. (s, length (filter (\<lambda>r. Launch_Site r = s \<and> class_col r = 1) (records df))))
        (sorted_list_of_set (Launch_Site ` {r \<in> set (records df). class_col r = 1}))) \<and>
   fst (snd (snd (update_insight_charts df s1))) =
     (''Launch Success Rate by Site'',
      map (\<lambda>s. (s, Some (of_int (sum_list (map class_col (filter (\<lambda>r. Launch_Site r = s) (records df))))
                         / of_nat (length (filter (\<lambda>r. Launch_Site r = s) (records df))))))
        (sorted_list_of_set (Launch_Site ` set (records df))))"
  using site_success_eq [of "records df"] grouped_mean_eq [of Launch_Site "records df"]
  by (simp add: update_insight_charts_def Let_def site_rate_def)

text \<open>
  On the scenario of the specification: success counts \<open>A: 1, B: 1\<close> and success rates
  \<open>A: 0.5, B: 1.0\<close>, for the selection \<open>B\<close> as for a cleared selector.
\<close>

theorem site_insights_independent_of_selection_witness:
  "snd (update_insight_charts scenario (Some ''B'')) = snd (update_insight_charts scenario None) \<and>
   fst (snd (update_insight_charts scenario (Some ''B''))) =
     (''Successful Launches by Site'', [(''A'', 1), (''B'', 1)]) \<and>
   fst (snd (snd (update_insight_charts scenario (Some ''B'')))) =
     (''Launch Success Rate by Site'', [(''A'', Some (1 / 2)), (''B'', Some 1)])"
proof -
  note th = site_insights_independent_of_selection [of scenario "Some ''B''" None]
  have rows: "records scenario =
     [\<lparr>Launch_Site = ''A'', Payload_Mass = 1000, class_col = 1, Booster_Version_Category = ''FT''\<rparr>,
      \<lparr>Launch_Site = ''A'', Payload_Mass = 6000, class_col = 0, Booster_Version_Category = ''FT''\<rparr>,
      \<lparr>Launch_Site = ''B'', Payload_Mass = 3000, class_col = 1, Booster_Version_Category = ''B4''\<rparr>]"
    by (simp add: scenario_def read_csv_def)
  have all_sites: "sorted_list_of_set (Launch_Site ` set (records scenario)) = [''A'', ''B'']"
    by code_simp
  have good_sites:
    "sorted_list_of_set (Launch_Site ` {r \<in> set (records scenario). class_col r = 1}) = [''A'', ''B'']"
    by code_simp
  have "fst (snd (update_insight_charts scenario (Some ''B''))) =
     (''Successful Launches by Site'',
      map (\<lambda>s. (s, length (filter (\<lambda>r. Launch_Site r = s \<and> class_col r = 1) (records scenario))))
        [''A'', ''B''])"
    by (simp only: th [THEN conjunct2, THEN conjunct1] good_sites)
  then have 1: "fst (snd (update_insight_charts scenario (Some ''B''))) =
     (''Successful Launches by Site'', [(''A'', 1), (''B'', 1)])"
    by (simp add: rows)
  have "fst (snd (snd (update_insight_charts scenario (Some ''B'')))) =
     (''Launch Success Rate by Site'',
      map (\<lambda>s. (s, Some (of_int (sum_list (map class_col (filter (\<lambda>r. Launch_Site r = s) (records scenario))))
                         / of_nat (length (filter (\<lambda>r. Launch_Site r = s) (records scenario))))))
        [''A'', ''B''])"
    by (simp only: th [THEN conjunct2, THEN conjunct2] all_sites)
  then have 2: "fst (snd (snd (update_insight_charts scenario (Some ''B'')))) =
     (''Launch Success Rate by Site'', [(''A'', Some (1 / 2)), (''B'', Some 1)])"
    by (simp add: rows)
  from th [THEN conjunct1] 1 2 show ?thesis by (intro conjI)
qed

section \<open>Success rates\<close>

lemma binary_sum_bounds:
  "\<forall>c\<in>set cs. c = 0 \<or> c = (1::int) \<Longrightarrow> 0 \<le> sum_list cs \<and> sum_list cs \<le> int (length cs)"
  by (induction cs) auto

lemma binary_mean_bounds:
  assumes "\<forall>c\<in>set cs. c = 0 \<or> c = (1::int)" and "mean cs = Some v"
  shows "0 \<le> v \<and> v \<le> 1"
proof -
  from assms(2) have ne: "cs \<noteq> []" and v: "v = of_int (sum_list cs) / of_nat (length cs)"
    by (auto simp: mean_def split: if_splits)
  from binary_sum_bounds [OF assms(1)]
  have lo: "0 \<le> sum_list cs" and hi: "sum_list cs \<le> int (length cs)" by simp_all
  have pos: "(0::rat) < of_nat (length cs)" using ne by simp
  have "(of_int (sum_list cs) :: rat) \<le> of_int (int (length cs))"
    using hi by (simp only: of_int_le_iff)
  then have "(of_int (sum_list cs) :: rat) \<le> of_nat (length cs)" by simp
  with pos have "v \<le> 1" unfolding v by (simp add: divide_le_eq)
  moreover have "0 \<le> v" unfolding v using lo pos by simp
  ultimately show ?thesis by simp
qed

lemma grouped_rates_bounded:
  fixes key :: "launch \<Rightarrow> string"
  assumes "\<forall>r\<in>set rows. class_col r = 0 \<or> class_col r = 1"
    and "(k, m) \<in> set (map (\<lambda>(k, g). (k, mean (map class_col g))) (groupby key rows))"
  shows "\<exists>v. m = Some v \<and> 0 \<le> v \<and> v \<le> 1"
proof -
  from assms(2) have k: "k \<in> key ` set rows"
    and m: "m = mean (map class_col (filter (\<lambda>r. key r = k) rows))"
    by (auto simp: groupby_def)
  from k have "map class_col (filter (\<lambda>r. key r = k) rows) \<noteq> []"
    by (auto simp: filter_empty_conv)
  then obtain v where v: "m = Some v" unfolding m by (auto simp: mean_def)
  have "\<forall>c\<in>set (map class_col (filter (\<lambda>r. key r = k) rows)). c = 0 \<or> c = 1"
    using assms(1) by auto
  from binary_mean_bounds [OF this v [unfolded m]] v show ?thesis by simp
qed

lemma zip_pd_cut_filter:
  "map fst (filter (\<lambda>(r, b). b = Some l) (zip rows (pd_cut (map Payload_Mass rows) edges names))) =
   filter (\<lambda>r. cut_one edges names (Payload_Mass r) = Some l) rows"
  by (induction rows) (simp_all add: pd_cut_def)

lemma payload_rate_eq:
  "payload_rate rows (pd_cut (map Payload_Mass rows) bins labels) =
     map (\<lambda>l. (l, mean (map class_col
                  (filter (\<lambda>r. cut_one bins labels (Payload_Mass r) = Some l) rows)))) labels"
  by (simp add: payload_rate_def groupby_categorical_def zip_pd_cut_filter o_def)

lemma payload_rates_bounded:
  assumes "\<forall>r\<in>set rows. class_col r = 0 \<or> class_col r = 1"
    and "(k, m) \<in> set (payload_rate rows (pd_cut (map Payload_Mass rows) bins labels))"
  shows "case m of
           None \<Rightarrow> filter (\<lambda>r. cut_one bins labels (Payload_Mass r) = Some k) rows = []
         | Some v \<Rightarrow> 0 \<le> v \<and> v \<le> 1"
proof -
  let ?g = "filter (\<lambda>r. cut_one bins labels (Payload_Mass r) = Some k) rows"
  from assms(2) have m: "m = mean (map class_col ?g)"
    by (auto simp: payload_rate_eq)
  show ?thesis
  proof (cases m)
    case None
    with m show ?thesis by (simp add: mean_def split: if_splits)
  next
    case (Some v)
    have "\<forall>c\<in>set (map class_col ?g). c = 0 \<or> c = 1"
      using assms(1) by auto
    from binary_mean_bounds [OF this] Some m show ?thesis by simp
  qed
qed

text \<open>
  Claim C7. With every outcome 0 or 1, every mean outcome the insight callback reports lies in
  \<open>[0, 1]\<close>: per site and per booster category every group has rows and a mean; per payload
  bucket a bucket has either no rows (and no mean) or a mean in \<open>[0, 1]\<close>.
\<close>

theorem success_rates_within_unit_interval:
  assumes "\<forall>r\<in>set (records df). class_col r = 0 \<or> class_col r = 1"
  shows "case snd (update_insight_charts df sel) of
           (fig_site_success, (t2, site_rates), (t3, payload_rates), (t4, booster_rates)) \<Rightarrow>
             (\<forall>(k, m)\<in>set site_rates. \<exists>v. m = Some v \<and> 0 \<le> v \<and> v \<le> 1) \<and>
             (\<forall>(k, m)\<in>set payload_rates.
                case m of
                  None \<Rightarrow> filter (\<lambda>r. cut_one bins labels (Payload_Mass r) = Some k) (records df) = []
                | Some v \<Rightarrow> 0 \<le> v \<and> v \<le> 1) \<and>
             (\<forall>(k, m)\<in>set booster_rates. \<exists>v. m = Some v \<and> 0 \<le> v \<and> v \<le> 1)"
proof -
  have 1: "\<forall>(k, m)\<in>set (site_rate (records df)). \<exists>v. m = Some v \<and> 0 \<le> v \<and> v \<le> 1"
    unfolding site_rate_def using grouped_rates_bounded [OF assms] by blast
  have 2: "\<forall>(k, m)\<in>set (booster_rate (records df)). \<exists>v. m = Some v \<and> 0 \<le> v \<and> v \<le> 1"
    unfolding booster_rate_def using grouped_rates_bounded [OF assms] by blast
  have 3: "\<forall>(k, m)\<in>set (payload_rate (records df) (pd_cut (map Payload_Mass (records df)) bins labels)).
             case m of
               None \<Rightarrow> filter (\<lambda>r. cut_one bins labels (Payload_Mass r) = Some k) (records df) = []
             | Some v \<Rightarrow> 0 \<le> v \<and> v \<le> 1"
    using payload_rates_bounded [OF assms] by blast
  show ?thesis
    using 1 2 3 by (simp add: update_insight_charts_def Let_def)
qed

text \<open>
  On the scenario of the specification, where the bucket \<open>7500-10000\<close> is empty.
\<close>

theorem success_rates_within_unit_interval_witness:
  "list_all (\<lambda>r. class_col r = 0 \<or> class_col r = 1) (records scenario) \<and>
   snd (snd (update_insight_charts scenario (Some ''ALL''))) =
     ((''Launch Success Rate by Site'', [(''A'', Some (1 / 2)), (''B'', Some 1)]),
      (''Launch Success Rate by Payload Range'',
         [(''0-2500'', Some 1), (''2500-5000'', Some 1), (''5000-7500'', Some 0),
          (''7500-10000'', None)]),
      (''Launch Success Rate by Booster Version'', [(''B4'', Some 1), (''FT'', Some (1 / 2))]))"
proof -
  have h: "\<forall>r\<in>set (records scenario). class_col r = 0 \<or> class_col r = 1"
    by (simp add: scenario_def read_csv_def)
  have v: "snd (snd (update_insight_charts scenario (Some ''ALL''))) =
     ((''Launch Success Rate by Site'', [(''A'', Some (1 / 2)), (''B'', Some 1)]),
      (''Launch Success Rate by Payload Range'',
         [(''0-2500'', Some 1), (''2500-5000'', Some 1), (''5000-7500'', Some 0),
          (''7500-10000'', None)]),
      (''Launch Success Rate by Booster Version'', [(''B4'', Some 1), (''FT'', Some (1 / 2))]))"
    by code_simp
  from success_rates_within_unit_interval [OF h, of "Some ''ALL''"] h v
  show ?thesis by (simp add: list_all_iff)
qed

section \<open>The data set under the callbacks\<close>

lemma update_insight_charts_frame:
  "fst (update_insight_charts df sel) =
     df\<lparr>Payload_Range := Some (pd_cut (map Payload_Mass (records df)) bins labels)\<rparr>"
  by (simp add: update_insight_charts_def Let_def)

lemma update_insight_charts_figures:
  "snd (update_insight_charts df sel) =
     ((''Successful Launches by Site'', site_success (records df)),
      (''Launch Success Rate by Site'', site_rate (records df)),
      (''Launch Success Rate by Payload Range'',
         payload_rate (records df) (pd_cut (map Payload_Mass (records df)) bins labels)),
      (''Launch Success Rate by Booster Version'', booster_rate (records df)))"
  by (simp add: update_insight_charts_def Let_def)

lemma fire_records: "records (fst (fire df e)) = records df"
  by (cases e) (simp_all add: split_beta update_insight_charts_frame)

lemma fire_Payload_Range:
  "Payload_Range (fst (fire df e)) = Payload_Range df \<or>
   Payload_Range (fst (fire df e)) = Some (pd_cut (map Payload_Mass (records df)) bins labels)"
  by (cases e) (simp_all add: split_beta update_insight_charts_frame)

lemma run_records: "records (run df es) = records df"
  by (induction es arbitrary: df) (simp_all add: fire_records)

lemma run_Payload_Range:
  "Payload_Range (run df es) = Payload_Range df \<or>
   Payload_Range (run df es) = Some (pd_cut (map Payload_Mass (records df)) bins labels)"
proof (induction es arbitrary: df)
  case Nil
  show ?case by simp
next
  case (Cons e es)
  from Cons.IH [of "fst (fire df e)"] fire_Payload_Range [of df e]
  show ?case by (auto simp: fire_records)
qed

text \<open>
  Claim C5. The pie and the scatter callback leave the frame as it is; the insight callback
  changes nothing but the column \<open>'Payload Range'\<close>, which it sets to the buckets of the
  payload-mass column. So after any sequence of callbacks on the loaded frame, the rows are the
  loaded rows, and the derived column is absent or holds the buckets of their payload masses.
\<close>

theorem callbacks_only_add_payload_range:
  "fst (fire df (PieEvent sel)) = df \<and>
   fst (fire df (ScatterEvent sel payload_range)) = df \<and>
   fst (fire df (InsightEvent sel)) =
     df\<lparr>Payload_Range := Some (pd_cut (map Payload_Mass (records df)) bins labels)\<rparr> \<and>
   records (run (read_csv rows) es) = rows \<and>
   (Payload_Range (run (read_csv rows) es) = None \<or>
    Payload_Range (run (read_csv rows) es) = Some (pd_cut (map Payload_Mass rows) bins labels))"
  using run_records [of "read_csv rows" es] run_Payload_Range [of "read_csv rows" es]
  by (simp add: split_beta update_insight_charts_frame read_csv_def)

text \<open>
  Claim C10. Running the insight callback a second time, with any selection, leaves the frame
  (derived column included) as the first run left it, and returns the same figures.
\<close>

theorem insight_idempotent_on_dataset:
  "fst (update_insight_charts (fst (update_insight_charts df s1)) s2) =
     fst (update_insight_charts df s1) \<and>
   snd (update_insight_charts (fst (update_insight_charts df s1)) s2) =
     snd (update_insight_charts df s1)"
  by (simp add: update_insight_charts_frame update_insight_charts_figures)

text \<open>No callback reads the derived column of the frame it is given.\<close>

lemma fire_figures_cong:
  "records d1 = records d2 \<Longrightarrow> snd (fire d1 e) = snd (fire d2 e)"
  by (cases e)
     (simp_all add: split_beta update_insight_charts_figures update_pie_chart_def
        update_scatter_chart_def scatter_filtered_df_def split: list.splits)

text \<open>
  Claim C8. The figures a callback returns are a function of the rows of the data set and of
  the callback's inputs alone: they are the figures computed on the frame as loaded, whether or
  not the derived column has been written, and whatever callbacks \<open>es\<close> ran before.
\<close>

theorem views_have_no_hidden_state:
  "snd (fire df e) = snd (fire (read_csv (records df)) e) \<and>
   snd (fire (run df es) e) = snd (fire df e)"
proof
  show "snd (fire df e) = snd (fire (read_csv (records df)) e)"
    by (rule fire_figures_cong) (simp add: read_csv_def)
  show "snd (fire (run df es) e) = snd (fire df e)"
    by (rule fire_figures_cong) (rule run_records)
qed

end
